theory Spec2Isabelle
  imports Complex_Main
begin

section \<open>Values of the Python program\<close>

text \<open>
  The program is a Streamlit script (\<^verbatim>\<open>app.py\<close>) over two helper modules
  (\<^verbatim>\<open>utils/currgen.py\<close>, \<^verbatim>\<open>utils/target_op.py\<close>). Python integers are modelled as
  \<^typ>\<open>int\<close>. Python and numpy floats are modelled as \<^typ>\<open>real\<close> wherever the IEEE result is
  a finite number, without rounding and without overflow; the special values that numpy
  returns instead of raising (a division by zero, a logarithm of a non-positive number, a
  mean of nothing) are the further constructors of \<open>npfloat\<close>. Exceptions are values of
  \<open>error\<close>.
\<close>

datatype error = ValueError | ZeroDivisionError | KeyError | TypeError | NameError

datatype npfloat = Num real | PInf | NInf | NaN

subsection \<open>Arithmetic of numpy scalars\<close>

text \<open>
  The operations follow IEEE 754 on the special values. A zero of \<^typ>\<open>real\<close> stands for
  \<open>+0.0\<close>: the only zero denominators of the program are means of absolute values and
  differences of equal numbers, which are positive zeros.
\<close>

fun np_neg :: "npfloat \<Rightarrow> npfloat" where
  "np_neg (Num x) = Num (- x)"
| "np_neg PInf = NInf"
| "np_neg NInf = PInf"
| "np_neg NaN = NaN"

fun np_abs :: "npfloat \<Rightarrow> npfloat" where
  "np_abs (Num x) = Num \<bar>x\<bar>"
| "np_abs PInf = PInf"
| "np_abs NInf = PInf"
| "np_abs NaN = NaN"

fun np_add :: "npfloat \<Rightarrow> npfloat \<Rightarrow> npfloat" where
  "np_add (Num x) (Num y) = Num (x + y)"
| "np_add NaN b = NaN"
| "np_add a NaN = NaN"
| "np_add PInf NInf = NaN"
| "np_add NInf PInf = NaN"
| "np_add PInf b = PInf"
| "np_add a PInf = PInf"
| "np_add NInf b = NInf"
| "np_add a NInf = NInf"

definition np_sub :: "npfloat \<Rightarrow> npfloat \<Rightarrow> npfloat" where
  "np_sub a b = np_add a (np_neg b)"

fun np_mul :: "npfloat \<Rightarrow> npfloat \<Rightarrow> npfloat" where
  "np_mul (Num x) (Num y) = Num (x * y)"
| "np_mul NaN b = NaN"
| "np_mul a NaN = NaN"
| "np_mul (Num x) PInf = (if x = 0 then NaN else if 0 < x then PInf else NInf)"
| "np_mul (Num x) NInf = (if x = 0 then NaN else if 0 < x then NInf else PInf)"
| "np_mul PInf (Num y) = (if y = 0 then NaN else if 0 < y then PInf else NInf)"
| "np_mul NInf (Num y) = (if y = 0 then NaN else if 0 < y then NInf else PInf)"
| "np_mul PInf PInf = PInf"
| "np_mul PInf NInf = NInf"
| "np_mul NInf PInf = NInf"
| "np_mul NInf NInf = PInf"

text \<open>
  Division of numpy scalars never raises: a finite number over zero is an infinity and
  zero over zero is \<open>nan\<close> (numpy reports a \<open>RuntimeWarning\<close> and goes on).
\<close>

fun np_div :: "npfloat \<Rightarrow> npfloat \<Rightarrow> npfloat" where
  "np_div (Num x) (Num y) =
     (if y \<noteq> 0 then Num (x / y) else if 0 < x then PInf else if x < 0 then NInf else NaN)"
| "np_div NaN b = NaN"
| "np_div a NaN = NaN"
| "np_div (Num x) PInf = Num 0"
| "np_div (Num x) NInf = Num 0"
| "np_div PInf (Num y) = (if 0 \<le> y then PInf else NInf)"
| "np_div NInf (Num y) = (if 0 \<le> y then NInf else PInf)"
| "np_div PInf PInf = NaN"
| "np_div PInf NInf = NaN"
| "np_div NInf PInf = NaN"
| "np_div NInf NInf = NaN"


text \<open>Comparisons: every comparison with \<open>nan\<close> is false.\<close>

fun np_le :: "npfloat \<Rightarrow> npfloat \<Rightarrow> bool" where
  "np_le (Num x) (Num y) = (x \<le> y)"
| "np_le NaN b = False"
| "np_le a NaN = False"
| "np_le NInf b = True"
| "np_le a PInf = True"
| "np_le PInf b = False"
| "np_le a NInf = False"



text \<open>\<open>numpy.mean\<close> and the \<open>mean()\<close> of a pandas column: \<open>nan\<close> for no element.\<close>

definition np_sum :: "npfloat list \<Rightarrow> npfloat" where
  "np_sum xs = foldl np_add (Num 0) xs"

definition np_mean :: "npfloat list \<Rightarrow> npfloat" where
  "np_mean xs = (if xs = [] then NaN else np_div (np_sum xs) (Num (real (length xs))))"

text \<open>Sorting without \<open>nan\<close>: insertion into an ascending list (\<open>-inf\<close> first, \<open>inf\<close> last).\<close>

fun np_insort :: "npfloat \<Rightarrow> npfloat list \<Rightarrow> npfloat list" where
  "np_insort x [] = [x]"
| "np_insort x (y # ys) = (if np_le x y then x # y # ys else y # np_insort x ys)"

definition np_sort :: "npfloat list \<Rightarrow> npfloat list" where
  "np_sort xs = foldr np_insort xs []"

text \<open>
  \<open>numpy.median\<close>: \<open>nan\<close> for no element and whenever an element is \<open>nan\<close>; otherwise the
  middle element of the sorted data, or the mean of the two middle elements.
\<close>

definition np_median :: "npfloat list \<Rightarrow> npfloat" where
  "np_median xs =
     (if xs = [] \<or> NaN \<in> set xs then NaN
      else let s = np_sort xs; n = length s
           in if odd n then s ! (n div 2)
              else np_div (np_add (s ! (n div 2 - 1)) (s ! (n div 2))) (Num 2))"

text \<open>A slice bound of a sequence of length \<open>n\<close>: a negative bound counts from the end, and
  every bound is clipped to \<open>[0, n]\<close>.\<close>

definition slice_index :: "nat \<Rightarrow> int \<Rightarrow> nat" where
  "slice_index n k = nat (if k < 0 then max 0 (int n + k) else min k (int n))"

text \<open>\<open>xs[i:j]\<close>, read.\<close>

definition py_slice :: "'a list \<Rightarrow> int \<Rightarrow> int \<Rightarrow> 'a list" where
  "py_slice xs i j =
     take (slice_index (length xs) j - slice_index (length xs) i)
       (drop (slice_index (length xs) i) xs)"

text \<open>\<open>xs[i:j] = v\<close> on a numpy array: the positions of the slice take the scalar \<open>v\<close>.\<close>

definition slice_assign :: "real list \<Rightarrow> int \<Rightarrow> int \<Rightarrow> real \<Rightarrow> real list" where
  "slice_assign xs i j v =
     map (\<lambda>k. if slice_index (length xs) i \<le> k \<and> k < slice_index (length xs) j then v else xs ! k)
       [0..<length xs]"

text \<open>\<open>int(x)\<close> of a float truncates towards zero.\<close>

definition py_int :: "real \<Rightarrow> int" where
  "py_int r = (if 0 \<le> r then \<lfloor>r\<rfloor> else \<lceil>r\<rceil>)"

text \<open>\<open>numpy.zeros(n)\<close> raises \<open>ValueError\<close> for a negative dimension.\<close>

definition zeros :: "int \<Rightarrow> error + real list" where
  "zeros n = (if n < 0 then Inl ValueError else Inr (replicate (nat n) 0))"



section \<open>utils/currgen.py: class WaveGen\<close>

record WaveGen =
  magnitude :: real
  threshold :: real

text \<open>\<^verbatim>\<open>__init__(self, magnitude=0, threshold=1)\<close>: the stored magnitude is \<open>10 ** magnitude\<close>.\<close>

definition WaveGen_init :: "int \<Rightarrow> real \<Rightarrow> WaveGen" where
  "WaveGen_init m thr = \<lparr>magnitude = 10 powi m, threshold = thr\<rparr>"

text \<open>\<^verbatim>\<open>_check_safety(self, value)\<close>.\<close>

definition check_safety :: "WaveGen \<Rightarrow> real \<Rightarrow> bool" where
  "check_safety w v =
     (let scaled_value = v * magnitude w
      in if \<bar>scaled_value\<bar> \<ge> threshold w then False else True)"

text \<open>
  The \<open>while i < length\<close> loop of \<open>generate_square_wave\<close> (lines 93 to 105). The loop may
  run forever, so not returning is the value \<open>None\<close>. The arguments are the length, the
  high duration, the period, the scaled high and low values, the index \<open>i\<close> and the array.
\<close>

partial_function (option) square_wave_loop ::
  "int \<Rightarrow> int \<Rightarrow> int \<Rightarrow> real \<Rightarrow> real \<Rightarrow> int \<Rightarrow> real list \<Rightarrow> real list option" where
  "square_wave_loop len high_duration period hv lv i sw =
     (if i < len then
        (if i + high_duration \<le> len then
           (if (i + high_duration) + (period - high_duration) \<le> len then
              square_wave_loop len high_duration period hv lv
                ((i + high_duration) + (period - high_duration))
                (slice_assign (slice_assign sw i (i + high_duration) hv)
                   (i + high_duration) ((i + high_duration) + (period - high_duration)) lv)
            else Some (slice_assign (slice_assign sw i (i + high_duration) hv)
                   (i + high_duration) len lv))
         else Some (slice_assign sw i len hv))
      else Some sw)"

text \<open>
  \<^verbatim>\<open>generate_square_wave(self, length, high_value, low_value, period, duty_cycle, init_time)\<close>.
  The two safety checks are evaluated and their results are not used. The outer \<open>option\<close>
  is \<open>None\<close> when the call does not return; the sum holds the exception of \<open>zeros\<close>.
\<close>

definition generate_square_wave ::
  "WaveGen \<Rightarrow> int \<Rightarrow> real \<Rightarrow> real \<Rightarrow> int \<Rightarrow> real \<Rightarrow> int \<Rightarrow> (error + real list) option" where
  "generate_square_wave w len high_value low_value period duty_cycle init_time =
     (let hi_safe = check_safety w high_value;
          lo_safe = check_safety w low_value;
          hv = high_value * magnitude w;
          lv = low_value * magnitude w
      in case zeros len of
           Inl e \<Rightarrow> Some (Inl e)
         | Inr square_wave \<Rightarrow>
             map_option Inr
               (square_wave_loop len (py_int (real_of_int period * duty_cycle)) period hv lv
                  init_time square_wave))"

text \<open>
  The wave as the specification words it, sample by sample: zero before \<open>init_time\<close>, then
  cycles of \<open>period\<close> samples whose first \<open>h\<close> samples are high and whose other samples are
  low. The generator is compared with it below.
\<close>

definition square_wave_spec :: "int \<Rightarrow> int \<Rightarrow> int \<Rightarrow> real \<Rightarrow> real \<Rightarrow> int \<Rightarrow> real" where
  "square_wave_spec init_time period h hv lv j =
     (if j < init_time then 0 else if (j - init_time) mod period < h then hv else lv)"

section \<open>app.py: numeric helpers\<close>

text \<open>A row of the measured data frame, with the six columns of \<open>Measure_List\<close>.\<close>

record sample =
  Voltage :: real
  Current :: real
  Resistance :: real
  Time :: real
  Status :: real
  Source :: real

text \<open>\<^verbatim>\<open>is_current_in_range(row)\<close>.\<close>

definition is_current_in_range :: "sample \<Rightarrow> bool" where
  "is_current_in_range row =
     (let source = \<bar>Source row\<bar>;
          current = \<bar>Current row\<bar>;
          lower_bound = source * (7 / 10);
          upper_bound = source * (13 / 10)
      in lower_bound \<le> current \<and> current \<le> upper_bound)"

text \<open>
  \<^verbatim>\<open>remove_outliers_amd(data, threshold=1.6)\<close>, with \<open>thresh\<close> for the parameter
  \<open>threshold\<close>: the mask compares every deviation with \<open>threshold * amd\<close>, and
  \<open>data[mask]\<close> keeps the masked elements in their order.
\<close>

definition remove_outliers_amd :: "npfloat list \<Rightarrow> real \<Rightarrow> npfloat list" where
  "remove_outliers_amd data thresh =
     (let median = np_median data;
          deviations = map (\<lambda>x. np_abs (np_sub x median)) data;
          amd = np_median deviations;
          mask = map (\<lambda>x. np_le (np_abs (np_sub x median)) (np_mul (Num thresh) amd)) data
      in map fst (filter snd (zip data mask)))"

text \<open>
  The median as the specification words it, on numbers: the middle of the sorted data, the
  mean of the two middle values for an even count. It is read on non-empty data only.
\<close>

definition median :: "real list \<Rightarrow> real" where
  "median xs =
     (let s = sort xs; n = length s
      in if odd n then s ! (n div 2) else (s ! (n div 2 - 1) + s ! (n div 2)) / 2)"






section \<open>app.py: the test parameters and the results\<close>

text \<open>
  The dictionary \<open>test_param\<close>. A forcing current is one number in manual mode and a list of
  levels in auto mode. The keys of the sample geometry are set for the chosen shape only,
  and the estimated thickness is \<open>None\<close> when the field is left blank.
\<close>

datatype curr_value = Single real | Levels "real list"



record test_param =
  curr_value :: curr_value
  magnitude_exp :: int
  period :: int
  duty_cycle :: real
  initial_zero :: int
  repeats :: int
  probe_spacing :: real
  est_thickness :: "real option"
  square_a :: "real option"
  square_d :: "real option"
  circular_diameter :: "real option"

text \<open>
  The ratio of one series (lines 650 to 655, and 688 to 694 per level): the reversal point,
  the corrected voltage over the two windows, the mean of the absolute currents, and their
  quotient. The means are numpy scalars; no statement of these lines raises.
\<close>

definition reverse_p :: "test_param \<Rightarrow> int" where
  "reverse_p p = initial_zero p + py_int (real_of_int (period p) * duty_cycle p)"

definition Volt_corrected :: "test_param \<Rightarrow> sample list \<Rightarrow> npfloat" where
  "Volt_corrected p df =
     np_div
       (np_sub (np_mean (map Num (py_slice (map Voltage df) (initial_zero p) (reverse_p p))))
          (np_mean (map Num (py_slice (map Voltage df) (reverse_p p) (initial_zero p + period p)))))
       (Num 2)"

definition Avg_curr :: "sample list \<Rightarrow> npfloat" where
  "Avg_curr df = np_mean (map (\<lambda>row. Num \<bar>Current row\<bar>) df)"

definition Cal_V_I :: "test_param \<Rightarrow> sample list \<Rightarrow> error + npfloat" where
  "Cal_V_I p df = Inr (np_div (Volt_corrected p df) (Avg_curr df))"













section \<open>app.py: one run of the script, from the mode switch to the measurement\<close>

text \<open>
  Streamlit runs the script from top to bottom at every interaction; \<open>st.session_state\<close>
  survives between the runs. The session keeps the keys that steer a test; its
  \<open>test_param\<close> is \<open>None\<close> while the dictionary is still empty.
\<close>

record session =
  test_initiated :: bool
  safe :: "bool option"
  manual_mode_enable :: bool
  test_param :: "test_param option"





text \<open>
  The call of the generator, the same at lines 242, 605 and 620: the length is
  \<open>period * repeats\<close>, the low value is the negated level.
\<close>

definition app_square_wave :: "WaveGen \<Rightarrow> test_param \<Rightarrow> real \<Rightarrow> (error + real list) option" where
  "app_square_wave wave p v =
     generate_square_wave wave (period p * repeats p) v (- v) (period p) (duty_cycle p)
       (initial_zero p)"








text \<open>An example dictionary of a manual run: two samples per cycle, one initial zero.\<close>

definition example_param :: test_param where
  "example_param =
     \<lparr>curr_value = Single 50, magnitude_exp = - 6, period = 2, duty_cycle = 1 / 2,
      initial_zero = 1, repeats = 1, probe_spacing = 16 / 10, est_thickness = None,
      square_a = None, square_d = None, circular_diameter = Some 100\<rparr>"

text \<open>A row with the given voltage, current and source; the other columns are not read.\<close>

definition row :: "real \<Rightarrow> real \<Rightarrow> real \<Rightarrow> sample" where
  "row v c src = \<lparr>Voltage = v, Current = c, Resistance = 0, Time = 0, Status = 0, Source = src\<rparr>"

text \<open>
  Two example series for \<open>example_param\<close> (one initial zero, then one high and one low
  sample): one with a measured current of 50 microamperes, one with no current at all.
\<close>

definition live_series :: "sample list" where
  "live_series =
     [row 0 0 0, row (1 / 100) (5 / 100000) (5 / 100000),
      row (- (1 / 100)) (- (5 / 100000)) (- (5 / 100000))]"

definition dead_series :: "sample list" where
  "dead_series =
     [row 0 0 0, row (1 / 100) 0 (5 / 100000), row (- (1 / 100)) 0 (- (5 / 100000))]"



section \<open>Slices\<close>

lemma length_slice_assign: "length (slice_assign xs i j v) = length xs"
  by (simp add: slice_assign_def)

lemma nth_slice_assign:
  "k < length xs \<Longrightarrow> slice_assign xs i j v ! k =
     (if slice_index (length xs) i \<le> k \<and> k < slice_index (length xs) j then v else xs ! k)"
  by (simp add: slice_assign_def)

lemma slice_index_nonneg: "0 \<le> k \<Longrightarrow> slice_index n k = min (nat k) n"
  by (auto simp: slice_index_def min_def)

lemma nth_slice_assign_nonneg:
  "k < length xs \<Longrightarrow> 0 \<le> i \<Longrightarrow> 0 \<le> j \<Longrightarrow> slice_assign xs i j v ! k =
     (if i \<le> int k \<and> int k < j then v else xs ! k)"
  by (auto simp: nth_slice_assign slice_index_nonneg)

section \<open>The loop of the square wave\<close>

text \<open>With a period of at least one sample the loop returns, whatever the other arguments.\<close>

lemma square_wave_loop_terminates:
  "1 \<le> per \<Longrightarrow> \<exists>r. square_wave_loop len h per hv lv i sw = Some r \<and> length r = length sw"
proof (induction "nat (len - i)" arbitrary: i sw rule: less_induct)
  case less
  show ?case
  proof (cases "i < len \<and> i + h \<le> len \<and> (i + h) + (per - h) \<le> len")
    case True
    let ?sw = "slice_assign (slice_assign sw i (i + h) hv) (i + h) ((i + h) + (per - h)) lv"
    have "nat (len - ((i + h) + (per - h))) < nat (len - i)"
      using True less.prems by linarith
    from less.hyps [OF this less.prems, of ?sw]
    obtain r where "square_wave_loop len h per hv lv ((i + h) + (per - h)) ?sw = Some r"
      and "length r = length sw"
      by (auto simp: length_slice_assign)
    with True show ?thesis
      by (subst square_wave_loop.simps) simp
  next
    case False
    then show ?thesis
      by (subst square_wave_loop.simps) (auto simp: length_slice_assign)
  qed
qed

text \<open>With period and high duration zero the index never moves: the loop does not return.\<close>

lemma square_wave_loop_diverges:
  assumes "i < len"
  shows "square_wave_loop len 0 0 hv lv i sw = None"
proof -
  have "\<not> (h = 0 \<and> per = 0 \<and> i < len)"
    if "square_wave_loop len h per hv lv i sw = Some r" for h per r
    by (rule square_wave_loop.raw_induct
          [where P = "\<lambda>len h p hv lv i sw r. \<not> (h = 0 \<and> p = 0 \<and> i < len)", OF _ that])
       (auto split: if_splits)
  with assms show ?thesis by (cases "square_wave_loop len 0 0 hv lv i sw") auto
qed

lemma mod_offset:
  fixes i :: int
  assumes "(i - ini) mod p = 0" "0 \<le> d" "d < p"
  shows "(i + d - ini) mod p = d"
proof -
  have "(i + d - ini) mod p = ((i - ini) + d) mod p" by (simp add: algebra_simps)
  also have "\<dots> = ((i - ini) mod p + d mod p) mod p" by (simp add: mod_add_eq)
  also have "\<dots> = d" using assms by simp
  finally show ?thesis .
qed

lemma spec_high:
  assumes "(i - ini) mod p = 0" "ini \<le> i" "i \<le> j" "j < i + h" "h \<le> p"
  shows "square_wave_spec ini p h hv lv j = hv"
proof -
  have "(i + (j - i) - ini) mod p = j - i"
    using assms by (intro mod_offset) auto
  then show ?thesis using assms by (simp add: square_wave_spec_def)
qed

lemma spec_low:
  assumes "(i - ini) mod p = 0" "ini \<le> i" "i + h \<le> j" "j < i + p" "0 \<le> h"
  shows "square_wave_spec ini p h hv lv j = lv"
proof -
  have "(i + (j - i) - ini) mod p = j - i"
    using assms by (intro mod_offset) auto
  then show ?thesis using assms by (simp add: square_wave_spec_def)
qed

text \<open>
  The invariant of the loop: at the head of an iteration the index is a whole number of
  periods after \<open>ini\<close>, and the array agrees with the sample-by-sample wave below the index.
\<close>

lemma square_wave_loop_closed_form:
  assumes "0 < per" "0 \<le> h" "h \<le> per" "0 \<le> ini" "ini \<le> i"
    and "(i - ini) mod per = 0" "length sw = nat len"
    and "\<forall>k. int k < i \<and> k < length sw \<longrightarrow> sw ! k = square_wave_spec ini per h hv lv (int k)"
  shows "\<exists>r. square_wave_loop len h per hv lv i sw = Some r \<and> length r = nat len
           \<and> (\<forall>k < nat len. r ! k = square_wave_spec ini per h hv lv (int k))"
  using assms(5-)
proof (induction "nat (len - i)" arbitrary: i sw rule: less_induct)
  case less
  note inv = less.prems(4) and len = less.prems(3) and md = less.prems(2) and ii = less.prems(1)
  have i0: "0 \<le> i" using assms(4) ii by simp
  consider (finished) "\<not> i < len"
    | (high_cut) "i < len" "\<not> i + h \<le> len"
    | (low_cut) "i < len" "i + h \<le> len" "\<not> (i + h) + (per - h) \<le> len"
    | (full_cycle) "i < len" "i + h \<le> len" "(i + h) + (per - h) \<le> len"
    by linarith
  then show ?case
  proof cases
    case finished
    then have "square_wave_loop len h per hv lv i sw = Some sw"
      by (subst square_wave_loop.simps) simp
    moreover have "\<forall>k < nat len. sw ! k = square_wave_spec ini per h hv lv (int k)"
      using inv len finished by auto
    ultimately show ?thesis using len by simp
  next
    case high_cut
    let ?r = "slice_assign sw i len hv"
    have "square_wave_loop len h per hv lv i sw = Some ?r"
      using high_cut by (subst square_wave_loop.simps) simp
    moreover have "?r ! k = square_wave_spec ini per h hv lv (int k)" if "k < nat len" for k
    proof (cases "i \<le> int k")
      case True
      then have "square_wave_spec ini per h hv lv (int k) = hv"
        using that high_cut assms(3) by (intro spec_high [OF md ii]) auto
      then show ?thesis using that True len i0 high_cut
        by (auto simp: nth_slice_assign_nonneg)
    next
      case False
      then show ?thesis using that len i0 high_cut inv
        by (auto simp: nth_slice_assign_nonneg)
    qed
    ultimately show ?thesis using len by (simp add: length_slice_assign)
  next
    case low_cut
    let ?r = "slice_assign (slice_assign sw i (i + h) hv) (i + h) len lv"
    have "square_wave_loop len h per hv lv i sw = Some ?r"
      using low_cut by (subst square_wave_loop.simps) simp
    moreover have "?r ! k = square_wave_spec ini per h hv lv (int k)" if "k < nat len" for k
    proof -
      consider "int k < i" | "i \<le> int k" "int k < i + h" | "i + h \<le> int k" by linarith
      then show ?thesis
      proof cases
        case 1
        then show ?thesis using that len i0 low_cut inv assms(2)
          by (auto simp: nth_slice_assign_nonneg length_slice_assign)
      next
        case 2
        then have "square_wave_spec ini per h hv lv (int k) = hv"
          using assms(3) by (intro spec_high [OF md ii]) auto
        then show ?thesis using 2 that len i0 low_cut assms(2)
          by (auto simp: nth_slice_assign_nonneg length_slice_assign)
      next
        case 3
        then have "square_wave_spec ini per h hv lv (int k) = lv"
          using assms(2) that low_cut by (intro spec_low [OF md ii]) auto
        then show ?thesis using 3 that len i0 low_cut assms(2)
          by (auto simp: nth_slice_assign_nonneg length_slice_assign)
      qed
    qed
    ultimately show ?thesis using len by (simp add: length_slice_assign)
  next
    case full_cycle
    let ?i = "(i + h) + (per - h)"
    let ?sw = "slice_assign (slice_assign sw i (i + h) hv) (i + h) ?i lv"
    have step: "square_wave_loop len h per hv lv i sw = square_wave_loop len h per hv lv ?i ?sw"
      using full_cycle by (subst square_wave_loop.simps) simp
    have m: "nat (len - ?i) < nat (len - i)" using full_cycle assms(1) by linarith
    have ii': "ini \<le> ?i" using ii assms(1) by linarith
    have md': "(?i - ini) mod per = 0"
    proof -
      have "(?i - ini) mod per = ((i - ini) + per) mod per"
        by (simp add: algebra_simps)
      also have "\<dots> = (i - ini) mod per" by simp
      finally show ?thesis using md by simp
    qed
    have len': "length ?sw = nat len" using len by (simp add: length_slice_assign)
    have inv': "\<forall>k. int k < ?i \<and> k < length ?sw \<longrightarrow>
                 ?sw ! k = square_wave_spec ini per h hv lv (int k)"
    proof (intro allI impI)
      fix k assume k: "int k < ?i \<and> k < length ?sw"
      then have kl: "k < length sw" by (simp add: length_slice_assign)
      consider "int k < i" | "i \<le> int k" "int k < i + h" | "i + h \<le> int k" by linarith
      then show "?sw ! k = square_wave_spec ini per h hv lv (int k)"
      proof cases
        case 1
        then show ?thesis using kl i0 inv assms(1,2)
          by (auto simp: nth_slice_assign_nonneg length_slice_assign)
      next
        case 2
        then have "square_wave_spec ini per h hv lv (int k) = hv"
          using assms(3) by (intro spec_high [OF md ii]) auto
        then show ?thesis using 2 kl i0 assms(1,2)
          by (auto simp: nth_slice_assign_nonneg length_slice_assign)
      next
        case 3
        then have "square_wave_spec ini per h hv lv (int k) = lv"
          using assms(2) k by (intro spec_low [OF md ii]) auto
        then show ?thesis using 3 k kl i0 assms(1,2)
          by (auto simp: nth_slice_assign_nonneg length_slice_assign)
      qed
    qed
    from less.hyps [OF m ii' md' len' inv'] step show ?thesis by simp
  qed
qed

section \<open>The generator\<close>

lemma py_int_duty:
  assumes "0 \<le> per" "0 \<le> dc" "dc \<le> 1"
  shows "py_int (real_of_int per * dc) = \<lfloor>real_of_int per * dc\<rfloor>"
    and "0 \<le> py_int (real_of_int per * dc)"
    and "py_int (real_of_int per * dc) \<le> per"
proof -
  have nn: "0 \<le> real_of_int per * dc" using assms by simp
  then show eq: "py_int (real_of_int per * dc) = \<lfloor>real_of_int per * dc\<rfloor>"
    by (simp add: py_int_def)
  show "0 \<le> py_int (real_of_int per * dc)" using nn eq by simp
  have "real_of_int per * dc \<le> real_of_int per * 1"
    using assms by (intro mult_left_mono) auto
  then have "\<lfloor>real_of_int per * dc\<rfloor> \<le> per" by (simp add: floor_le_iff)
  then show "py_int (real_of_int per * dc) \<le> per" using eq by simp
qed

lemma generate_square_wave_returns:
  assumes "1 \<le> per"
  shows "\<exists>r. generate_square_wave w len hv lv per dc ini = Some r"
proof (cases "len < 0")
  case True
  then show ?thesis by (simp add: generate_square_wave_def zeros_def Let_def)
next
  case False
  from square_wave_loop_terminates [OF assms]
  obtain r where "square_wave_loop len (py_int (real_of_int per * dc)) per
      (hv * magnitude w) (lv * magnitude w) ini (replicate (nat len) 0) = Some r"
    by blast
  with False show ?thesis by (simp add: generate_square_wave_def zeros_def Let_def)
qed


lemma generate_square_wave_diverges:
  assumes "0 \<le> len" "ini < len"
  shows "generate_square_wave w len hv lv 0 dc ini = None"
  using assms square_wave_loop_diverges [of ini len]
  by (simp add: generate_square_wave_def zeros_def Let_def py_int_def)

lemma generate_square_wave_closed_form:
  assumes "0 < per" "0 \<le> dc" "dc \<le> 1" "0 \<le> ini" "0 \<le> len"
  shows "\<exists>sw. generate_square_wave w len hv lv per dc ini = Some (Inr sw) \<and> length sw = nat len
           \<and> (\<forall>k < nat len. sw ! k =
                square_wave_spec ini per \<lfloor>real_of_int per * dc\<rfloor>
                  (hv * magnitude w) (lv * magnitude w) (int k))"
proof -
  let ?h = "py_int (real_of_int per * dc)"
  have per0: "0 \<le> per" using assms(1) by simp
  have h: "?h = \<lfloor>real_of_int per * dc\<rfloor>" "0 \<le> ?h" "?h \<le> per"
    using py_int_duty [OF per0 assms(2,3)] by auto
  have inv: "\<forall>k. int k < ini \<and> k < length (replicate (nat len) (0::real)) \<longrightarrow>
      replicate (nat len) (0::real) ! k =
        square_wave_spec ini per ?h (hv * magnitude w) (lv * magnitude w) (int k)"
    by (simp add: square_wave_spec_def)
  from square_wave_loop_closed_form
    [OF assms(1) h(2) h(3) assms(4) order_refl _ _ inv, of len]
  obtain r where "square_wave_loop len ?h per (hv * magnitude w) (lv * magnitude w) ini
        (replicate (nat len) 0) = Some r"
    and "length r = nat len"
    and "\<forall>k < nat len. r ! k =
        square_wave_spec ini per ?h (hv * magnitude w) (lv * magnitude w) (int k)"
    by auto
  then show ?thesis using assms(5) h(1)
    by (simp add: generate_square_wave_def zeros_def Let_def)
qed

section \<open>Claims about the forcing wave\<close>



text \<open>
  C1, as the code has it. Every call of the generator in \<open>app.py\<close> passes
  \<open>period * repeats\<close> as the length, so for a positive period, a duty cycle in \<open>[0, 1]\<close>, at
  least one repeat and a non-negative initial zero the forcing sequence has exactly
  \<open>period * repeats\<close> samples: the initial zeros take the place of the first samples and
  the last cycle is cut short by as many.
\<close>

theorem app_square_wave_length:
  assumes "0 < period p" "0 \<le> duty_cycle p" "duty_cycle p \<le> 1" "1 \<le> repeats p"
    "0 \<le> initial_zero p"
  shows "\<exists>sw. app_square_wave w p v = Some (Inr sw)
           \<and> int (length sw) = period p * repeats p"
proof -
  have "0 \<le> period p * repeats p" using assms(1,4) by simp
  from generate_square_wave_closed_form [OF assms(1,2,3,5) this, of w v "- v"]
  show ?thesis using \<open>0 \<le> period p * repeats p\<close>
    by (auto simp: app_square_wave_def)
qed

theorem app_square_wave_length_witness:
  "\<exists>sw. app_square_wave (WaveGen_init (- 6) 1) example_param 50 = Some (Inr sw)
     \<and> int (length sw) = 2"
  using app_square_wave_length [of example_param "WaveGen_init (- 6) 1" 50]
  by (simp add: example_param_def)

text \<open>
  The claim C1 as stated fails: with period 2, one repeat and one initial zero the sequence
  has 2 samples, not 3.
\<close>

theorem app_square_wave_length_counterexample:
  "\<exists>sw. app_square_wave (WaveGen_init (- 6) 1) example_param 50 = Some (Inr sw)
     \<and> int (length sw) \<noteq>
         period example_param * repeats example_param + initial_zero example_param"
proof -
  have "(0::int) \<le> 2" by simp
  from generate_square_wave_closed_form
    [of 2 "1 / 2" 1 2 "WaveGen_init (- 6) 1" 50 "- 50"]
  obtain sw where
    "generate_square_wave (WaveGen_init (- 6) 1) 2 50 (- 50) 2 (1 / 2) 1 = Some (Inr sw)"
    "length sw = nat 2"
    by auto
  then show ?thesis
    by (intro exI [of _ sw]) (simp add: app_square_wave_def example_param_def)
qed

text \<open>
  C10. With a period of at least one sample the generator returns for every input (an array,
  or the \<open>ValueError\<close> of a negative length): a full iteration of the loop moves the index
  from \<open>i\<close> to \<open>i + per\<close>. With period 0 and an initial time below the length the loop never
  returns, and so neither does the generator once the array is allocated.
\<close>

theorem generate_square_wave_termination:
  "(1 \<le> per \<longrightarrow> (\<exists>r. generate_square_wave w len hv lv per dc ini = Some r))
   \<and> (i < len \<and> i + h \<le> len \<and> (i + h) + (per - h) \<le> len \<longrightarrow>
        square_wave_loop len h per hv' lv' i sw =
          square_wave_loop len h per hv' lv' (i + per)
            (slice_assign (slice_assign sw i (i + h) hv') (i + h) (i + per) lv'))
   \<and> (ini < len \<longrightarrow>
        square_wave_loop len (py_int (real_of_int 0 * dc)) 0 hv' lv' ini sw = None)
   \<and> (0 \<le> len \<and> ini < len \<longrightarrow> generate_square_wave w len hv lv 0 dc ini = None)"
proof (intro conjI impI)
  assume "1 \<le> per"
  then show "\<exists>r. generate_square_wave w len hv lv per dc ini = Some r"
    by (rule generate_square_wave_returns)
next
  assume a: "i < len \<and> i + h \<le> len \<and> (i + h) + (per - h) \<le> len"
  have e: "(i + h) + (per - h) = i + per" by simp
  from a show "square_wave_loop len h per hv' lv' i sw =
      square_wave_loop len h per hv' lv' (i + per)
        (slice_assign (slice_assign sw i (i + h) hv') (i + h) (i + per) lv')"
    by (subst square_wave_loop.simps) (simp add: e)
next
  assume "ini < len"
  then show "square_wave_loop len (py_int (real_of_int 0 * dc)) 0 hv' lv' ini sw = None"
    by (simp add: py_int_def square_wave_loop_diverges)
next
  assume "0 \<le> len \<and> ini < len"
  then show "generate_square_wave w len hv lv 0 dc ini = None"
    by (simp add: generate_square_wave_diverges)
qed

theorem generate_square_wave_termination_witness:
  "(\<exists>r. generate_square_wave (WaveGen_init 0 1) 10 1 (- 1) 1 (1 / 2) 0 = Some r)
   \<and> square_wave_loop 10 (py_int (real_of_int 0 * (1 / 2))) 0 1 (- 1) 0 (replicate 10 0) = None
   \<and> generate_square_wave (WaveGen_init 0 1) 10 1 (- 1) 0 (1 / 2) 0 = None"
  using generate_square_wave_termination
    [of 1 "WaveGen_init 0 1" 10 1 "- 1" "1 / 2" 0 0 0 1 "- 1" "replicate 10 0"]
  by simp

section \<open>The outlier filter on numbers\<close>

lemma np_insort_Num: "np_insort (Num x) (map Num ys) = map Num (insort x ys)"
  by (induction ys) auto

lemma np_sort_Num: "np_sort (map Num xs) = map Num (sort xs)"
proof (induction xs)
  case Nil
  show ?case by (simp add: np_sort_def)
next
  case (Cons x xs)
  then have "np_sort (map Num (x # xs)) = np_insort (Num x) (map Num (sort xs))"
    by (simp add: np_sort_def)
  then show ?case by (simp add: np_insort_Num)
qed

lemma np_median_Num:
  assumes "xs \<noteq> []"
  shows "np_median (map Num xs) = Num (median xs)"
proof -
  let ?s = "sort xs"
  let ?n = "length xs"
  have n: "0 < ?n" using assms by simp
  have nonan: "NaN \<notin> set (map Num xs)" by auto
  show ?thesis
  proof (cases "odd ?n")
    case True
    have "?n div 2 < length ?s" using n by simp
    then show ?thesis using True assms nonan
      by (simp add: np_median_def median_def np_sort_Num Let_def del: set_map)
  next
    case False
    then have "2 \<le> ?n" using n by presburger
    then have "?n div 2 < length ?s" "?n div 2 - 1 < length ?s" by simp_all
    then show ?thesis using False assms nonan
      by (simp add: np_median_def median_def np_sort_Num Let_def del: set_map)
  qed
qed

lemma mask_select: "map fst (filter snd (zip xs (map P xs))) = filter P xs"
  by (induction xs) auto

lemma remove_outliers_amd_Num:
  assumes "data \<noteq> []"
  shows "remove_outliers_amd (map Num data) thr =
     map Num (filter (\<lambda>x. \<bar>x - median data\<bar>
        \<le> thr * median (map (\<lambda>x. \<bar>x - median data\<bar>) data)) data)"
proof -
  let ?m = "median data"
  let ?dev = "map (\<lambda>x. \<bar>x - ?m\<bar>) data"
  have dev: "map (\<lambda>x. np_abs (np_sub x (Num ?m))) (map Num data) = map Num ?dev"
    by (simp add: np_sub_def)
  have dev_ne: "?dev \<noteq> []" using assms by simp
  have amd: "np_median (map Num ?dev) = Num (median ?dev)"
    by (rule np_median_Num [OF dev_ne])
  have mask: "map (\<lambda>x. np_le (np_abs (np_sub x (Num ?m))) (np_mul (Num thr) (Num (median ?dev))))
                (map Num data)
              = map (\<lambda>x. case x of Num r \<Rightarrow> \<bar>r - ?m\<bar> \<le> thr * median ?dev | _ \<Rightarrow> False)
                  (map Num data)"
    by (simp add: np_sub_def)
  have "remove_outliers_amd (map Num data) thr =
      map fst (filter snd (zip (map Num data)
        (map (\<lambda>x. case x of Num r \<Rightarrow> \<bar>r - ?m\<bar> \<le> thr * median ?dev | _ \<Rightarrow> False)
           (map Num data))))"
    unfolding remove_outliers_amd_def Let_def np_median_Num [OF assms] dev amd mask ..
  also have "\<dots> = filter (\<lambda>x. case x of Num r \<Rightarrow> \<bar>r - ?m\<bar> \<le> thr * median ?dev | _ \<Rightarrow> False)
        (map Num data)"
    by (rule mask_select)
  also have "\<dots> = map Num (filter (\<lambda>x. \<bar>x - ?m\<bar> \<le> thr * median ?dev) data)"
    by (simp add: filter_map comp_def)
  finally show ?thesis .
qed

text \<open>
  C2, as the code has it. For a non-empty list of numbers the filter with threshold 1.6
  keeps, in their order, exactly the values \<open>x\<close> with \<open>|x - median| \<le> 1.6 * mad\<close>, where
  \<open>mad\<close> is the median of the absolute deviations from the median. When \<open>mad = 0\<close> the
  values that pass are exactly those equal to the median; every other value is rejected.
\<close>

theorem remove_outliers_amd_keeps:
  assumes "data \<noteq> []"
  shows "remove_outliers_amd (map Num data) (16 / 10) =
           map Num (filter (\<lambda>x. \<bar>x - median data\<bar>
              \<le> 16 / 10 * median (map (\<lambda>x. \<bar>x - median data\<bar>) data)) data)
       \<and> (median (map (\<lambda>x. \<bar>x - median data\<bar>) data) = 0 \<longrightarrow>
            remove_outliers_amd (map Num data) (16 / 10) =
              map Num (filter (\<lambda>x. x = median data) data))"
proof (intro conjI impI)
  show "remove_outliers_amd (map Num data) (16 / 10) =
           map Num (filter (\<lambda>x. \<bar>x - median data\<bar>
              \<le> 16 / 10 * median (map (\<lambda>x. \<bar>x - median data\<bar>) data)) data)"
    by (rule remove_outliers_amd_Num [OF assms])
next
  assume "median (map (\<lambda>x. \<bar>x - median data\<bar>) data) = 0"
  then show "remove_outliers_amd (map Num data) (16 / 10) =
      map Num (filter (\<lambda>x. x = median data) data)"
    by (simp add: remove_outliers_amd_Num [OF assms])
qed

theorem remove_outliers_amd_keeps_witness:
  "remove_outliers_amd (map Num [1, 2, 3, 4, 100]) (16 / 10) = map Num [2, 3, 4]
   \<and> median (map (\<lambda>x. \<bar>x - median [2, 2, 2, 2]\<bar>) [2, 2, 2, 2 :: real]) = 0
   \<and> remove_outliers_amd (map Num [2, 2, 2, 2]) (16 / 10) = map Num [2, 2, 2, 2]"
proof -
  have "remove_outliers_amd (map Num [1, 2, 3, 4, 100]) (16 / 10) = map Num [2, 3, 4]"
    using remove_outliers_amd_keeps [of "[1, 2, 3, 4, 100]"] by (simp add: median_def)
  moreover have m: "median (map (\<lambda>x. \<bar>x - median [2, 2, 2, 2]\<bar>) [2, 2, 2, 2 :: real]) = 0"
    by (simp add: median_def)
  moreover have "remove_outliers_amd (map Num [2, 2, 2, 2]) (16 / 10) = map Num [2, 2, 2, 2]"
    using remove_outliers_amd_keeps [of "[2, 2, 2, 2]"] m by (simp add: median_def)
  ultimately show ?thesis by blast
qed

text \<open>
  The claim C2 as stated fails in its last part: on \<open>[1, 1, 1, 1, 100]\<close> the median
  deviation is 0 and the value 100 is rejected all the same.
\<close>

theorem remove_outliers_amd_counterexample:
  "median (map (\<lambda>x. \<bar>x - median [1, 1, 1, 1, 100]\<bar>) [1, 1, 1, 1, 100 :: real]) = 0
   \<and> remove_outliers_amd (map Num [1, 1, 1, 1, 100]) (16 / 10) = map Num [1, 1, 1, 1]
   \<and> Num 100 \<notin> set (remove_outliers_amd (map Num [1, 1, 1, 1, 100]) (16 / 10))"
proof -
  have r: "remove_outliers_amd (map Num [1, 1, 1, 1, 100]) (16 / 10) = map Num [1, 1, 1, 1]"
    using remove_outliers_amd_Num [of "[1, 1, 1, 1, 100]" "16 / 10"] by (simp add: median_def)
  have "median (map (\<lambda>x. \<bar>x - median [1, 1, 1, 1, 100]\<bar>) [1, 1, 1, 1, 100 :: real]) = 0"
    by (simp add: median_def)
  moreover have "Num 100 \<notin> set (remove_outliers_amd (map Num [1, 1, 1, 1, 100]) (16 / 10))"
    unfolding r by simp
  ultimately show ?thesis using r by blast
qed

section \<open>Means and ratios\<close>

lemma foldl_np_add_Num: "foldl np_add (Num a) (map Num xs) = Num (a + sum_list xs)"
  by (induction xs arbitrary: a) (simp_all add: add.assoc)

lemma np_mean_Num:
  "xs \<noteq> [] \<Longrightarrow> np_mean (map Num xs) = Num (sum_list xs / real (length xs))"
  by (simp add: np_mean_def np_sum_def foldl_np_add_Num)

lemma Avg_curr_Num:
  assumes "df \<noteq> []"
  shows "Avg_curr df = Num (sum_list (map (\<lambda>r. \<bar>Current r\<bar>) df) / real (length df))"
proof -
  have "map (\<lambda>r. Num \<bar>Current r\<bar>) df = map Num (map (\<lambda>r. \<bar>Current r\<bar>) df)" by simp
  then show ?thesis using assms np_mean_Num [of "map (\<lambda>r. \<bar>Current r\<bar>) df"]
    by (simp add: Avg_curr_def comp_def)
qed

lemma np_div_zero: "np_div a (Num 0) \<in> {PInf, NInf, NaN}"
  by (cases a) auto

text \<open>
  C3, as the code has it. For every series the ratio is the corrected voltage over the
  average current, which is the mean of the absolute currents of the whole series. No
  error is raised when the average current is 0: the division of numpy scalars yields
  \<open>inf\<close>, \<open>-inf\<close> or \<open>nan\<close>, and that value is the ratio.
\<close>

theorem Cal_V_I_ratio:
  "Cal_V_I p df = Inr (np_div (Volt_corrected p df) (Avg_curr df))
   \<and> (df \<noteq> [] \<longrightarrow>
        Avg_curr df = Num (sum_list (map (\<lambda>r. \<bar>Current r\<bar>) df) / real (length df)))
   \<and> (Avg_curr df = Num 0 \<longrightarrow>
        Cal_V_I p df \<in> {Inr PInf, Inr NInf, Inr NaN})"
proof (intro conjI impI)
  show "Cal_V_I p df = Inr (np_div (Volt_corrected p df) (Avg_curr df))"
    by (simp add: Cal_V_I_def)
next
  assume "df \<noteq> []"
  then show "Avg_curr df = Num (sum_list (map (\<lambda>r. \<bar>Current r\<bar>) df) / real (length df))"
    by (rule Avg_curr_Num)
next
  assume "Avg_curr df = Num 0"
  then show "Cal_V_I p df \<in> {Inr PInf, Inr NInf, Inr NaN}"
    using np_div_zero [of "Volt_corrected p df"] by (auto simp: Cal_V_I_def)
qed

lemma Volt_corrected_example:
  "Volt_corrected example_param live_series = Num (1 / 100)"
  "Volt_corrected example_param dead_series = Num (1 / 100)"
  by (simp_all add: Volt_corrected_def example_param_def live_series_def dead_series_def
        row_def reverse_p_def py_int_def py_slice_def slice_index_def np_mean_def np_sum_def
        np_sub_def)

lemma Avg_curr_example:
  "Avg_curr live_series = Num (1 / 30000)"
  "Avg_curr dead_series = Num 0"
  by (simp_all add: Avg_curr_def live_series_def dead_series_def row_def np_mean_def np_sum_def)

theorem Cal_V_I_ratio_witness:
  "Cal_V_I example_param live_series = Inr (Num 300)
   \<and> Avg_curr dead_series = Num 0
   \<and> Cal_V_I example_param dead_series \<in> {Inr PInf, Inr NInf, Inr NaN}"
  using Cal_V_I_ratio [of example_param live_series] Cal_V_I_ratio [of example_param dead_series]
  by (simp add: Volt_corrected_example Avg_curr_example)

text \<open>
  The claim C3 as stated fails: on a series whose currents are all 0 the average current
  is 0 and the step returns the ratio \<open>inf\<close>; it raises nothing.
\<close>

theorem Cal_V_I_counterexample:
  "Avg_curr dead_series = Num 0 \<and> Cal_V_I example_param dead_series = Inr PInf"
  by (simp add: Cal_V_I_def Volt_corrected_example Avg_curr_example)

section \<open>Lateral correction of a circular sample\<close>








section \<open>Surface remark\<close>




section \<open>Corrected sheet resistance\<close>














section \<open>The safety override\<close>

















section \<open>Safety check\<close>

text \<open>
  C7. The safety check of a generator built with exponent \<open>e\<close> and threshold \<open>thr\<close> answers
  safe exactly when the magnitude of the scaled value is below the threshold; a scaled
  magnitude equal to the threshold is unsafe.
\<close>

theorem check_safety_iff:
  "check_safety (WaveGen_init e thr) v = (\<bar>v * 10 powi e\<bar> < thr)
   \<and> (\<bar>v * 10 powi e\<bar> = thr \<longrightarrow> \<not> check_safety (WaveGen_init e thr) v)"
  by (auto simp: check_safety_def WaveGen_init_def Let_def)

theorem check_safety_iff_witness:
  "check_safety (WaveGen_init (-6) 1) 50 = (\<bar>50 * 10 powi (-6)\<bar> < (1::real))
   \<and> \<bar>1000000 * 10 powi (-6)\<bar> = (1::real)
   \<and> \<not> check_safety (WaveGen_init (-6) 1) 1000000"
  using check_safety_iff [of "-6" 1 50] check_safety_iff [of "-6" 1 1000000]
  by (simp add: power_int_minus)

end
